theory Spec2Isabelle
  imports Main
begin

section \<open>Python values and exceptions\<close>

text \<open>
  The exceptions that the modelled functions can raise. \<open>DoesNotExist\<close> and
  \<open>MultipleObjectsReturned\<close> are the two exceptions of a Django \<open>Model.objects.get\<close>;
  \<open>AttributeError\<close> and \<open>NameError\<close> carry the name that could not be read.
\<close>

datatype error =
    AttributeError string
  | NameError string
  | DoesNotExist
  | MultipleObjectsReturned

text \<open>
  The \<open>resource_id\<close> argument is an untyped Python value: \<open>None\<close> (the default), a
  string (a URL keyword argument) or an integer (the \<open>id\<close> of an object).
\<close>

datatype res_id = IdNone | IdStr string | IdInt int

text \<open>Python truthiness, as tested by \<open>if resource_id:\<close>.\<close>

fun truthy :: "res_id \<Rightarrow> bool" where
  "truthy IdNone = False"
| "truthy (IdStr s) = (s \<noteq> [])"
| "truthy (IdInt n) = (n \<noteq> 0)"

text \<open>Python's \<open>str\<close> on these values; an integer is written in decimal.\<close>

definition digit_char :: "nat \<Rightarrow> char" where
  "digit_char d = ''0123456789'' ! d"

function str_nat :: "nat \<Rightarrow> string" where
  "str_nat n = (if n < 10 then [digit_char n] else str_nat (n div 10) @ [digit_char (n mod 10)])"
  by pat_completeness auto
termination
  by (relation "measure id") auto

declare str_nat.simps [simp del]

definition str_int :: "int \<Rightarrow> string" where
  "str_int i = (if i < 0 then CHR ''-'' # str_nat (nat (- i)) else str_nat (nat i))"

fun py_str :: "res_id \<Rightarrow> string" where
  "py_str IdNone = ''None''"
| "py_str (IdStr s) = s"
| "py_str (IdInt n) = str_int n"

section \<open>Data model (accounts/models.py, permissions\_system/models.py)\<close>

text \<open>
  A row of \<open>accounts.User\<close>. \<open>is_superuser\<close> comes from \<open>PermissionsMixin\<close>.
\<close>

record user =
  user_id :: int
  email :: string
  is_active :: bool
  is_staff :: bool
  is_superuser :: bool

text \<open>
  What a caller can pass as \<open>user\<close> (or find in \<open>request.user\<close>): Python's \<open>None\<close>,
  Django's \<open>AnonymousUser\<close> (whose \<open>id\<close> is \<open>None\<close>, whose \<open>is_active\<close>,
  \<open>is_superuser\<close> and \<open>is_authenticated\<close> are \<open>False\<close>), or a \<open>User\<close> row.
\<close>

datatype principal = PyNone | AnonymousUser | User user

record permission =
  perm_id :: int
  perm_code :: string
  perm_resource_type :: string
  perm_action :: string

record user_role =
  ur_user :: int
  ur_role :: int
  ur_assigned_by :: "int option"

record role_permission =
  rp_role :: int
  rp_permission :: int
  rp_granted_by :: "int option"

record user_permission =
  up_user :: int
  up_permission :: int
  up_is_granted :: bool
  up_granted_by :: "int option"

record resource_permission =
  rsp_user :: int
  rsp_resource_type :: string
  rsp_resource_id :: string
  rsp_permission :: int
  rsp_is_granted :: bool
  rsp_granted_by :: "int option"

text \<open>
  The database: one list of rows per table. Foreign keys hold the primary key of the
  row they point to. The automatic columns (\<open>id\<close> of the link tables, \<open>granted_at\<close>,
  \<open>assigned_at\<close>, \<open>created_at\<close>, \<open>updated_at\<close>) are read by no modelled operation.
\<close>

record store =
  users :: "user list"
  permissions :: "permission list"
  user_roles :: "user_role list"
  role_permissions :: "role_permission list"
  user_permissions :: "user_permission list"
  resource_permissions :: "resource_permission list"

text \<open>
  \<open>Model.objects.get(...)\<close> on the rows that match: exactly one row is returned, none
  raises \<open>DoesNotExist\<close>, several raise \<open>MultipleObjectsReturned\<close>.
\<close>

definition objects_get :: "'a list \<Rightarrow> error + 'a" where
  "objects_get rows =
     (case rows of
        [] \<Rightarrow> Inl DoesNotExist
      | [r] \<Rightarrow> Inr r
      | _ \<Rightarrow> Inl MultipleObjectsReturned)"

text \<open>
  The join behind a \<open>permission__code\<close> lookup: the codes of the \<open>Permission\<close> rows with
  the given primary key.
\<close>

definition permission__code :: "store \<Rightarrow> int \<Rightarrow> string list" where
  "permission__code st pid = [perm_code p. p \<leftarrow> permissions st, perm_id p = pid]"

section \<open>The decision engine (permissions\_system/services.py)\<close>

text \<open>The one logging statement of the service: \<open>logger.warning\<close> with the e-mail and the code.\<close>

datatype log_event = Warning string string

text \<open>
  \<open>check_permission\<close> reads the name \<open>permission_code\<close> four times (lines 42, 48, 53 and
  56) but nothing binds it: it is no parameter, the function never assigns it, and the
  module binds no such global (its globals are \<open>logging\<close>, the four imported models,
  \<open>logger\<close>, \<open>PermissionService\<close>, \<open>has_permission\<close> and \<open>require_permission\<close>). Reading it
  raises \<open>NameError\<close>.
\<close>

definition permission_code :: "error + string" where
  "permission_code = Inl (NameError ''permission_code'')"

definition check_resource_permission ::
    "store \<Rightarrow> user \<Rightarrow> string \<Rightarrow> string \<Rightarrow> res_id \<Rightarrow> error + bool option" where
  "check_resource_permission st u code resource_type resource_id =
     (case objects_get
             [r. r \<leftarrow> resource_permissions st,
                 rsp_user r = user_id u,
                 rsp_resource_type r = resource_type,
                 rsp_resource_id r = py_str resource_id,
                 c \<leftarrow> permission__code st (rsp_permission r),
                 c = code] of
        Inr resource_perm \<Rightarrow> Inr (Some (rsp_is_granted resource_perm))
      | Inl DoesNotExist \<Rightarrow> Inr None
      | Inl e \<Rightarrow> Inl e)"

definition check_user_permission :: "store \<Rightarrow> user \<Rightarrow> string \<Rightarrow> error + bool option" where
  "check_user_permission st u code =
     (case objects_get
             [r. r \<leftarrow> user_permissions st,
                 up_user r = user_id u,
                 c \<leftarrow> permission__code st (up_permission r),
                 c = code] of
        Inr user_perm \<Rightarrow> Inr (Some (up_is_granted user_perm))
      | Inl DoesNotExist \<Rightarrow> Inr None
      | Inl e \<Rightarrow> Inl e)"

definition check_role_permission :: "store \<Rightarrow> user \<Rightarrow> string \<Rightarrow> bool" where
  "check_role_permission st u code =
     (let user_role_ids = [ur_role r. r \<leftarrow> user_roles st, ur_user r = user_id u]
      in if user_role_ids = [] then False
         else [r. r \<leftarrow> role_permissions st,
                  rp_role r \<in> set user_role_ids,
                  c \<leftarrow> permission__code st (rp_permission r),
                  c = code] \<noteq> [])"

text \<open>
  \<open>check_permission\<close> returns the decision or the exception, and the log records written.
  The three equations are the three kinds of \<open>user\<close>: on \<open>None\<close> the first attribute read
  fails; an \<open>AnonymousUser\<close> is no superuser and not active; a \<open>User\<close> row is tested on
  its columns.
\<close>

fun check_permission ::
    "store \<Rightarrow> principal \<Rightarrow> string \<Rightarrow> string \<Rightarrow> res_id \<Rightarrow> (error + bool) \<times> log_event list" where
  "check_permission st PyNone resource_type action resource_id =
     (Inl (AttributeError ''is_superuser''), [])"
| "check_permission st AnonymousUser resource_type action resource_id =
     (Inr False, [])"
| "check_permission st (User u) resource_type action resource_id =
     (if is_superuser u then (Inr True, [])
      else if \<not> is_active u then (Inr False, [])
      else
        (case (if truthy resource_id
               then (case permission_code of
                       Inl e \<Rightarrow> Inl e
                     | Inr code \<Rightarrow> check_resource_permission st u code resource_type resource_id)
               else Inr None) of
           Inl e \<Rightarrow> (Inl e, [])
         | Inr (Some resource_perm) \<Rightarrow> (Inr resource_perm, [])
         | Inr None \<Rightarrow>
            (case permission_code of
               Inl e \<Rightarrow> (Inl e, [])
             | Inr code \<Rightarrow>
                (case check_user_permission st u code of
                   Inl e \<Rightarrow> (Inl e, [])
                 | Inr (Some user_perm) \<Rightarrow> (Inr user_perm, [])
                 | Inr None \<Rightarrow>
                    (case permission_code of
                       Inl e \<Rightarrow> (Inl e, [])
                     | Inr code \<Rightarrow>
                        (let has_role_perm = check_role_permission st u code
                         in if \<not> has_role_perm
                            then (case permission_code of
                                    Inl e \<Rightarrow> (Inl e, [])
                                  | Inr code \<Rightarrow> (Inr has_role_perm, [Warning (email u) code]))
                            else (Inr has_role_perm, [])))))))"

text \<open>
  \<open>get_user_permissions\<close> builds a Python \<open>set\<close> and returns \<open>list(permissions)\<close>, whose
  order Python leaves open: the result is modelled as the set of its elements. The
  superuser's \<open>['*.*']\<close> and the inactive user's \<open>[]\<close> are the sets of those lists.
\<close>

fun get_user_permissions :: "store \<Rightarrow> principal \<Rightarrow> error + string set" where
  "get_user_permissions st PyNone = Inl (AttributeError ''is_superuser'')"
| "get_user_permissions st AnonymousUser = Inr {}"
| "get_user_permissions st (User u) =
     (if is_superuser u then Inr {''*.*''}
      else if \<not> is_active u then Inr {}
      else
        (let user_role_ids = [ur_role r. r \<leftarrow> user_roles st, ur_user r = user_id u];
             role_permission_codes =
               [c. r \<leftarrow> role_permissions st,
                   rp_role r \<in> set user_role_ids,
                   c \<leftarrow> permission__code st (rp_permission r)];
             permissions1 = {} \<union> set role_permission_codes;
             user_permission_codes =
               [c. r \<leftarrow> user_permissions st,
                   up_user r = user_id u,
                   up_is_granted r,
                   c \<leftarrow> permission__code st (up_permission r)];
             permissions2 = permissions1 \<union> set user_permission_codes;
             denied_permissions =
               [c. r \<leftarrow> user_permissions st,
                   up_user r = user_id u,
                   \<not> up_is_granted r,
                   c \<leftarrow> permission__code st (up_permission r)]
         in Inr (permissions2 - set denied_permissions)))"

text \<open>The module-level convenience function of services.py.\<close>

definition has_permission ::
    "store \<Rightarrow> principal \<Rightarrow> string \<Rightarrow> string \<Rightarrow> res_id \<Rightarrow> (error + bool) \<times> log_event list" where
  "has_permission st user resource_type action resource_id =
     check_permission st user resource_type action resource_id"

subsection \<open>The effective permissions as the specification words them\<close>

text \<open>
  The roles a user holds, the codes a role carries, and the codes of a user's direct
  rows with a given \<open>is_granted\<close>, each read off the tables row by row.
\<close>

definition roles_held :: "store \<Rightarrow> user \<Rightarrow> int set" where
  "roles_held st u = ur_role ` {r \<in> set (user_roles st). ur_user r = user_id u}"

definition codes_of_role :: "store \<Rightarrow> int \<Rightarrow> string set" where
  "codes_of_role st rid =
     (\<Union>r \<in> {r \<in> set (role_permissions st). rp_role r = rid}.
        perm_code ` {p \<in> set (permissions st). perm_id p = rp_permission r})"

definition direct_codes :: "store \<Rightarrow> user \<Rightarrow> bool \<Rightarrow> string set" where
  "direct_codes st u granted =
     (\<Union>r \<in> {r \<in> set (user_permissions st). up_user r = user_id u \<and> up_is_granted r = granted}.
        perm_code ` {p \<in> set (permissions st). perm_id p = up_permission r})"

text \<open>
  Superuser: the wildcard. Inactive: nothing. Otherwise the union over all roles held,
  plus the direct grants, minus the direct denies, the subtraction last.
\<close>

definition EffectivePermissions :: "store \<Rightarrow> user \<Rightarrow> string set" where
  "EffectivePermissions st u =
     (if is_superuser u then {''*.*''}
      else if \<not> is_active u then {}
      else ((\<Union>rid \<in> roles_held st u. codes_of_role st rid) \<union> direct_codes st u True)
             - direct_codes st u False)"

section \<open>The policy gate (permissions\_system/permissions.py)\<close>

text \<open>
  \<open>not request.user\<close> holds of \<open>None\<close> only (a model instance and an \<open>AnonymousUser\<close>
  are truthy); \<open>is_authenticated\<close> is \<open>True\<close> on every \<open>User\<close> row and \<open>False\<close> on
  \<open>AnonymousUser\<close>.
\<close>

fun is_authenticated :: "principal \<Rightarrow> bool" where
  "is_authenticated PyNone = False"
| "is_authenticated AnonymousUser = False"
| "is_authenticated (User u) = True"

definition IsAuthenticated_has_permission :: "principal \<Rightarrow> bool" where
  "IsAuthenticated_has_permission request_user =
     (request_user \<noteq> PyNone \<and> is_authenticated request_user)"

text \<open>
  What the gate reads of the view: \<open>getattr(view, 'resource_type', None)\<close> and
  \<open>getattr(view, 'action', None)\<close>; \<open>None\<close> when the view has no such attribute.
\<close>

record view =
  view_resource_type :: "string option"
  view_action :: "string option"

text \<open>\<open>not x\<close> for an optional string: \<open>None\<close> and the empty string are falsy.\<close>

fun not_str :: "string option \<Rightarrow> bool" where
  "not_str None = True"
| "not_str (Some s) = (s = [])"

definition action_map :: "(string \<times> string) list" where
  "action_map =
     [(''list'', ''read''),
      (''retrieve'', ''read''),
      (''create'', ''create''),
      (''update'', ''update''),
      (''partial_update'', ''update''),
      (''destroy'', ''delete'')]"

text \<open>Python's \<open>d.get(key, default)\<close>.\<close>

definition dict_get :: "('k \<times> 'v) list \<Rightarrow> 'k \<Rightarrow> 'v \<Rightarrow> 'v" where
  "dict_get d k dflt = (case map_of d k of Some v \<Rightarrow> v | None \<Rightarrow> dflt)"

text \<open>
  The permission classes call \<open>PermissionService.check_permission\<close>, a static method
  that Python looks up on the class when the call runs. It is the first argument of the
  three gates below, so that what a gate passes to it can be stated; the service's
  own function is \<open>check_permission st\<close>.
\<close>

type_synonym decide =
  "principal \<Rightarrow> string \<Rightarrow> string \<Rightarrow> res_id \<Rightarrow> (error + bool) \<times> log_event list"

definition HasResourcePermission_has_permission ::
    "decide \<Rightarrow> principal \<Rightarrow> view \<Rightarrow> (error + bool) \<times> log_event list" where
  "HasResourcePermission_has_permission PermissionService_check_permission request_user view =
     (if request_user = PyNone \<or> \<not> is_authenticated request_user then (Inr False, [])
      else
        (case (view_resource_type view, view_action view) of
           (Some resource_type, Some action) \<Rightarrow>
             if not_str (Some resource_type) \<or> not_str (Some action) then (Inr True, [])
             else
               (let mapped_action = dict_get action_map action action
                in PermissionService_check_permission
                     request_user resource_type mapped_action IdNone)
         | _ \<Rightarrow> (Inr True, [])))"

text \<open>
  The object of \<open>has_object_permission\<close>, as far as the gate reads it:
  \<open>getattr(obj, 'id', None)\<close> and \<open>getattr(obj, 'pk', None)\<close>.
\<close>

record obj =
  obj_id :: res_id
  obj_pk :: res_id

definition HasResourcePermission_has_object_permission ::
    "decide \<Rightarrow> principal \<Rightarrow> view \<Rightarrow> obj \<Rightarrow> (error + bool) \<times> log_event list" where
  "HasResourcePermission_has_object_permission PermissionService_check_permission
       request_user view ob =
     (case (view_resource_type view, view_action view) of
        (Some resource_type, Some action) \<Rightarrow>
          if not_str (Some resource_type) \<or> not_str (Some action) then (Inr True, [])
          else
            (let mapped_action = dict_get action_map action action;
                 resource_id = (if truthy (obj_id ob) then obj_id ob else obj_pk ob)
             in PermissionService_check_permission
                  request_user resource_type mapped_action resource_id)
      | _ \<Rightarrow> (Inr True, []))"

definition IsAdminUser_has_permission ::
    "decide \<Rightarrow> principal \<Rightarrow> (error + bool) \<times> log_event list" where
  "IsAdminUser_has_permission PermissionService_check_permission request_user =
     (case request_user of
        PyNone \<Rightarrow> (Inr False, [])
      | AnonymousUser \<Rightarrow> (Inr False, [])
      | User u \<Rightarrow>
          if is_superuser u then (Inr True, [])
          else PermissionService_check_permission request_user ''admin'' ''access'' IdNone)"

section \<open>Granting a direct permission (permissions\_system/views.py)\<close>

text \<open>
  The validated request body of \<open>GrantPermissionSerializer\<close>: \<open>permission_id\<close> is
  required (\<open>None\<close> here when it is missing or no integer, which fails validation);
  \<open>is_granted\<close> defaults to \<open>True\<close> when absent.
\<close>

record grant_data =
  data_permission_id :: "int option"
  data_is_granted :: "bool option"

text \<open>
  A response of the view, by its HTTP status (the bodies are messages for the reader),
  or \<open>Denied\<close>, the response the framework builds itself (401 or 403) when a
  permission class of the view returns \<open>False\<close>.
\<close>

datatype response = Response nat | Denied

text \<open>
  Django's \<open>update_or_create(user=..., permission=..., defaults=...)\<close> on the
  \<open>UserPermission\<close> table: \<open>get\<close> the row of the pair; if there is one, set the
  defaults on it and save it; if there is none, create it; the flag tells which.
\<close>

definition update_or_create ::
    "store \<Rightarrow> int \<Rightarrow> int \<Rightarrow> bool \<Rightarrow> int option \<Rightarrow> error + (user_permission \<times> bool) \<times> store" where
  "update_or_create st uid pid is_granted granted_by =
     (case objects_get [r \<leftarrow> user_permissions st. up_user r = uid \<and> up_permission r = pid] of
        Inr found \<Rightarrow>
          (let saved = found\<lparr>up_is_granted := is_granted, up_granted_by := granted_by\<rparr>
           in Inr ((saved, False),
                   st\<lparr>user_permissions :=
                        map (\<lambda>r. if up_user r = uid \<and> up_permission r = pid then saved else r)
                            (user_permissions st)\<rparr>))
      | Inl DoesNotExist \<Rightarrow>
          (let created = \<lparr>up_user = uid, up_permission = pid,
                           up_is_granted = is_granted, up_granted_by = granted_by\<rparr>
           in Inr ((created, True),
                   st\<lparr>user_permissions := user_permissions st @ [created]\<rparr>))
      | Inl e \<Rightarrow> Inl e)"

text \<open>
  The body of the view (lines 186 to 223), run for a \<open>request.user\<close> that passed the
  permission classes and so is a \<open>User\<close> row. The result is the response (or the
  exception that escapes) and the database afterwards.
\<close>

definition grant_permission_to_user_body ::
    "store \<Rightarrow> user \<Rightarrow> grant_data \<Rightarrow> int \<Rightarrow> (error + response) \<times> store" where
  "grant_permission_to_user_body st request_user data uid =
     (case objects_get [u \<leftarrow> users st. user_id u = uid] of
        Inl DoesNotExist \<Rightarrow> (Inr (Response 404), st)
      | Inl e \<Rightarrow> (Inl e, st)
      | Inr user \<Rightarrow>
          (case data_permission_id data of
             None \<Rightarrow> (Inr (Response 400), st)
           | Some permission_id \<Rightarrow>
               (let is_granted = (case data_is_granted data of None \<Rightarrow> True | Some b \<Rightarrow> b)
                in case objects_get [p \<leftarrow> permissions st. perm_id p = permission_id] of
                     Inl DoesNotExist \<Rightarrow> (Inr (Response 404), st)
                   | Inl e \<Rightarrow> (Inl e, st)
                   | Inr permission \<Rightarrow>
                       (case update_or_create st (user_id user) (perm_id permission)
                               is_granted (Some (user_id request_user)) of
                          Inl e \<Rightarrow> (Inl e, st)
                        | Inr ((user_perm, created), st') \<Rightarrow>
                            (Inr (Response (if created then 201 else 200)), st')))))"

text \<open>
  The view as it is registered, under
  \<open>@permission_classes([IsAuthenticated, IsAdminUser])\<close>: the framework asks each class
  in turn before the body runs. A class that returns \<open>False\<close> ends the request with
  the framework's refusal, an exception raised by a class escapes, and in both cases
  the body does not run and the database is as before. \<open>IsAuthenticated\<close> lets only a
  \<open>User\<close> row through, so the last case has no other branch to take. The log records
  of the permission check are no part of the result.
\<close>

definition grant_permission_to_user ::
    "store \<Rightarrow> principal \<Rightarrow> grant_data \<Rightarrow> int \<Rightarrow> (error + response) \<times> store" where
  "grant_permission_to_user st request_user data uid =
     (if \<not> IsAuthenticated_has_permission request_user then (Inr Denied, st)
      else
        (case IsAdminUser_has_permission (check_permission st) request_user of
           (Inl e, log) \<Rightarrow> (Inl e, st)
         | (Inr False, log) \<Rightarrow> (Inr Denied, st)
         | (Inr True, log) \<Rightarrow>
             (case request_user of
                User requester \<Rightarrow> grant_permission_to_user_body st requester data uid
              | _ \<Rightarrow> (Inr Denied, st))))"

text \<open>
  The constraints the database keeps on the tables the view reads: primary keys of
  \<open>User\<close> and \<open>Permission\<close> are unique, and \<open>UserPermission\<close> is
  \<open>unique_together\<close> on \<open>(user, permission)\<close>.
\<close>

definition unique_keys :: "store \<Rightarrow> bool" where
  "unique_keys st =
     (distinct (map user_id (users st)) \<and>
      distinct (map perm_id (permissions st)) \<and>
      distinct (map (\<lambda>r. (up_user r, up_permission r)) (user_permissions st)))"


section \<open>Example data\<close>

text \<open>
  The catalogue and the \<open>viewer\<close> role (primary key 4) of the \<open>seed_data\<close> command, and
  three accounts: a superuser, an active account holding the role \<open>viewer\<close>, and a
  deactivated account holding it too.
\<close>

definition seed_permissions :: "permission list" where
  "seed_permissions =
     [\<lparr>perm_id = 1, perm_code = ''document.read'', perm_resource_type = ''document'', perm_action = ''read''\<rparr>,
      \<lparr>perm_id = 2, perm_code = ''document.create'', perm_resource_type = ''document'', perm_action = ''create''\<rparr>,
      \<lparr>perm_id = 3, perm_code = ''document.update'', perm_resource_type = ''document'', perm_action = ''update''\<rparr>,
      \<lparr>perm_id = 4, perm_code = ''document.delete'', perm_resource_type = ''document'', perm_action = ''delete''\<rparr>,
      \<lparr>perm_id = 5, perm_code = ''project.read'', perm_resource_type = ''project'', perm_action = ''read''\<rparr>,
      \<lparr>perm_id = 6, perm_code = ''project.create'', perm_resource_type = ''project'', perm_action = ''create''\<rparr>,
      \<lparr>perm_id = 7, perm_code = ''project.update'', perm_resource_type = ''project'', perm_action = ''update''\<rparr>,
      \<lparr>perm_id = 8, perm_code = ''project.delete'', perm_resource_type = ''project'', perm_action = ''delete''\<rparr>,
      \<lparr>perm_id = 9, perm_code = ''admin.access'', perm_resource_type = ''admin'', perm_action = ''access''\<rparr>]"

definition root_user :: user where
  "root_user = \<lparr>user_id = 1, email = ''root@test.com'', is_active = True,
                 is_staff = True, is_superuser = True\<rparr>"

definition viewer_user :: user where
  "viewer_user = \<lparr>user_id = 4, email = ''viewer@test.com'', is_active = True,
                   is_staff = False, is_superuser = False\<rparr>"

definition former_user :: user where
  "former_user = \<lparr>user_id = 5, email = ''former@test.com'', is_active = False,
                   is_staff = False, is_superuser = False\<rparr>"

definition viewer_role :: "role_permission list" where
  "viewer_role =
     [\<lparr>rp_role = 4, rp_permission = 1, rp_granted_by = None\<rparr>,
      \<lparr>rp_role = 4, rp_permission = 5, rp_granted_by = None\<rparr>]"

text \<open>No grant row at any layer.\<close>

definition bare_store :: store where
  "bare_store =
     \<lparr>users = [root_user, viewer_user, former_user], permissions = seed_permissions,
      user_roles = [], role_permissions = viewer_role,
      user_permissions = [], resource_permissions = []\<rparr>"

text \<open>The role \<open>viewer\<close> assigned to the active and to the deactivated account.\<close>

definition viewer_store :: store where
  "viewer_store =
     bare_store\<lparr>user_roles :=
       [\<lparr>ur_user = 4, ur_role = 4, ur_assigned_by = Some 1\<rparr>,
        \<lparr>ur_user = 5, ur_role = 4, ur_assigned_by = Some 1\<rparr>]\<rparr>"

text \<open>
  All three layers at once for the viewer and \<open>document.read\<close>: the role grant, a
  direct grant, and a deny on document 7. The deactivated account has a direct grant
  too.
\<close>

definition precedence_store :: store where
  "precedence_store =
     viewer_store\<lparr>
       user_permissions :=
         [\<lparr>up_user = 4, up_permission = 1, up_is_granted = True, up_granted_by = Some 1\<rparr>,
          \<lparr>up_user = 5, up_permission = 1, up_is_granted = True, up_granted_by = Some 1\<rparr>],
       resource_permissions :=
         [\<lparr>rsp_user = 4, rsp_resource_type = ''document'', rsp_resource_id = ''7'',
           rsp_permission = 1, rsp_is_granted = False, rsp_granted_by = Some 1\<rparr>]\<rparr>"

text \<open>Explicit denies of \<open>document.delete\<close> for the superuser, directly and on document 7.\<close>

definition root_denied_store :: store where
  "root_denied_store =
     viewer_store\<lparr>
       user_permissions :=
         [\<lparr>up_user = 1, up_permission = 4, up_is_granted = False, up_granted_by = Some 1\<rparr>],
       resource_permissions :=
         [\<lparr>rsp_user = 1, rsp_resource_type = ''document'', rsp_resource_id = ''7'',
           rsp_permission = 4, rsp_is_granted = False, rsp_granted_by = Some 1\<rparr>]\<rparr>"

text \<open>
  The viewer with a second role (primary key 3, carrying \<open>document.create\<close>), a direct
  grant of \<open>project.update\<close> and a direct deny of \<open>document.read\<close>.
\<close>

definition aggregate_store :: store where
  "aggregate_store =
     \<lparr>users = [root_user, viewer_user, former_user], permissions = seed_permissions,
      user_roles =
        [\<lparr>ur_user = 4, ur_role = 4, ur_assigned_by = Some 1\<rparr>,
         \<lparr>ur_user = 4, ur_role = 3, ur_assigned_by = Some 1\<rparr>],
      role_permissions = viewer_role @ [\<lparr>rp_role = 3, rp_permission = 2, rp_granted_by = None\<rparr>],
      user_permissions =
        [\<lparr>up_user = 4, up_permission = 7, up_is_granted = True, up_granted_by = Some 1\<rparr>,
         \<lparr>up_user = 4, up_permission = 1, up_is_granted = False, up_granted_by = Some 1\<rparr>],
      resource_permissions = []\<rparr>"

text \<open>A second administrator, and the body of a grant and of a deny of \<open>document.read\<close>.\<close>

definition auditor_user :: user where
  "auditor_user = \<lparr>user_id = 2, email = ''auditor@test.com'', is_active = True,
                    is_staff = True, is_superuser = True\<rparr>"

definition grant_document_read :: grant_data where
  "grant_document_read = \<lparr>data_permission_id = Some 1, data_is_granted = None\<rparr>"

definition deny_document_read :: grant_data where
  "deny_document_read = \<lparr>data_permission_id = Some 1, data_is_granted = Some False\<rparr>"

text \<open>
  Three views: the document list, a document view with an action of its own, and a
  view that sets no \<open>resource_type\<close>.
\<close>

definition documents_list :: view where
  "documents_list = \<lparr>view_resource_type = Some ''document'', view_action = Some ''list''\<rparr>"

definition documents_export :: view where
  "documents_export = \<lparr>view_resource_type = Some ''document'', view_action = Some ''export''\<rparr>"

definition untyped_view :: view where
  "untyped_view = \<lparr>view_resource_type = None, view_action = Some ''list''\<rparr>"

text \<open>
  A stand-in for the service that answers with what it was called with: the log holds
  the resource type and the action, the decision tells whether the principal was the
  viewer and no resource id was passed.
\<close>

definition recording_service :: decide where
  "recording_service user resource_type action resource_id =
     (Inr (user = User viewer_user \<and> resource_id = IdNone), [Warning resource_type action])"

lemmas example_defs = seed_permissions_def root_user_def viewer_user_def former_user_def
  viewer_role_def bare_store_def viewer_store_def precedence_store_def root_denied_store_def
  aggregate_store_def auditor_user_def grant_document_read_def deny_document_read_def
  documents_list_def documents_export_def untyped_view_def

section \<open>Superuser override and inactive block\<close>

text \<open>
  C2. For every principal with \<open>is_superuser = True\<close>, every resource type, action and
  resource id, and every state of the grant stores (whatever deny rows they hold),
  \<open>check_permission\<close> returns \<open>True\<close>.
\<close>

theorem superuser_always_granted:
  "is_superuser u \<Longrightarrow>
     check_permission st (User u) resource_type action resource_id = (Inr True, [])"
  by simp

text \<open>
  The superuser of the example is granted \<open>document.delete\<close> on document 7 although
  both override layers hold a deny row for it.
\<close>

theorem superuser_always_granted_witness:
  "is_superuser root_user \<and>
   check_user_permission root_denied_store root_user ''document.delete'' = Inr (Some False) \<and>
   check_resource_permission root_denied_store root_user ''document.delete'' ''document'' (IdStr ''7'')
     = Inr (Some False) \<and>
   check_permission root_denied_store (User root_user) ''document'' ''delete'' (IdStr ''7'')
     = (Inr True, [])"
  using superuser_always_granted [of root_user root_denied_store "''document''" "''delete''" "IdStr ''7''"]
  by (simp add: check_user_permission_def check_resource_permission_def objects_get_def
      permission__code_def example_defs)

text \<open>
  C3. For every principal that is no superuser and is not active, every resource type,
  action and resource id, and every state of the grant stores (whatever grant rows they
  hold), \<open>check_permission\<close> returns \<open>False\<close>.
\<close>

theorem inactive_always_denied:
  "\<not> is_superuser u \<Longrightarrow> \<not> is_active u \<Longrightarrow>
     check_permission st (User u) resource_type action resource_id = (Inr False, [])"
  by simp

text \<open>
  The deactivated account of the example is denied \<open>document.read\<close> although it has a
  direct grant and a role grant of it.
\<close>

theorem inactive_always_denied_witness:
  "\<not> is_superuser former_user \<and> \<not> is_active former_user \<and>
   check_user_permission precedence_store former_user ''document.read'' = Inr (Some True) \<and>
   check_role_permission precedence_store former_user ''document.read'' \<and>
   check_permission precedence_store (User former_user) ''document'' ''read'' IdNone
     = (Inr False, [])"
  using inactive_always_denied [of former_user precedence_store "''document''" "''read''" IdNone]
  by (simp add: check_user_permission_def check_role_permission_def objects_get_def
      permission__code_def example_defs)

section \<open>The unbound name\<close>

text \<open>
  Past the two checks above, every path of \<open>check_permission\<close> reads \<open>permission_code\<close>
  before it consults a layer, so every call for an active account that is no superuser
  ends in \<open>NameError\<close>.
\<close>

lemma active_user_raises:
  "\<not> is_superuser u \<Longrightarrow> is_active u \<Longrightarrow>
     check_permission st (User u) resource_type action resource_id
       = (Inl (NameError ''permission_code''), [])"
  by (simp add: permission_code_def)

text \<open>
  C1. For an active principal that is no superuser, \<open>check_permission\<close> should compute
  the code \<open>resource_type + "." + action\<close> first and, with no grant row at any layer,
  return the plain deny \<open>False\<close> without raising. The code raises: with no role, no
  direct row and no resource row for the viewer, the call ends in \<open>NameError\<close>.
\<close>

theorem no_grant_raises_NameError:
  "\<not> is_superuser viewer_user \<and> is_active viewer_user \<and>
   user_roles bare_store = [] \<and> user_permissions bare_store = [] \<and>
   resource_permissions bare_store = [] \<and>
   check_permission bare_store (User viewer_user) ''document'' ''read'' IdNone
     = (Inl (NameError ''permission_code''), [])"
  by (simp add: permission_code_def example_defs)

text \<open>
  C4. With a resource-level deny on document 7, a direct grant and a role grant of
  \<open>document.read\<close>, \<open>check_permission\<close> should return \<open>False\<close> for document 7 and \<open>True\<close>
  for document 8. The three layer functions answer as the precedence needs (deny at
  7, nothing at 8, direct grant, role grant), but \<open>check_permission\<close> raises
  \<open>NameError\<close> for both documents before it calls any of them.
\<close>

theorem precedence_raises_NameError:
  "check_resource_permission precedence_store viewer_user ''document.read'' ''document'' (IdStr ''7'')
     = Inr (Some False) \<and>
   check_resource_permission precedence_store viewer_user ''document.read'' ''document'' (IdStr ''8'')
     = Inr None \<and>
   check_user_permission precedence_store viewer_user ''document.read'' = Inr (Some True) \<and>
   check_role_permission precedence_store viewer_user ''document.read'' \<and>
   check_permission precedence_store (User viewer_user) ''document'' ''read'' (IdStr ''7'')
     = (Inl (NameError ''permission_code''), []) \<and>
   check_permission precedence_store (User viewer_user) ''document'' ''read'' (IdStr ''8'')
     = (Inl (NameError ''permission_code''), [])"
  by (simp add: check_user_permission_def check_resource_permission_def check_role_permission_def
      objects_get_def permission__code_def permission_code_def example_defs)

text \<open>
  C10. A falsy resource id (\<open>None\<close>, the empty string, 0) should skip the resource layer
  and go on to the user and role layers, and a truthy one should be looked up by its
  string form. The resource layer does find the row of document \<open>'7'\<close> for the integer
  7, and the user layer holds a grant, but \<open>check_permission\<close> raises \<open>NameError\<close> for
  the empty string, for 0 and for 7 alike: no layer is reached.
\<close>

theorem falsy_resource_id_raises_NameError:
  "check_user_permission precedence_store viewer_user ''document.read'' = Inr (Some True) \<and>
   check_permission precedence_store (User viewer_user) ''document'' ''read'' (IdStr '''')
     = (Inl (NameError ''permission_code''), []) \<and>
   check_permission precedence_store (User viewer_user) ''document'' ''read'' (IdInt 0)
     = (Inl (NameError ''permission_code''), []) \<and>
   check_resource_permission precedence_store viewer_user ''document.read'' ''document'' (IdInt 7)
     = Inr (Some False) \<and>
   check_permission precedence_store (User viewer_user) ''document'' ''read'' (IdInt 7)
     = (Inl (NameError ''permission_code''), [])"
  by (simp add: check_user_permission_def check_resource_permission_def
      objects_get_def permission__code_def permission_code_def example_defs
      str_int_def str_nat.simps digit_char_def)

text \<open>
  Two facts of the code that C10 rests on: a falsy resource id gives what no resource id
  gives, and the resource lookup reads an integer id through \<open>str\<close>.
\<close>

lemma falsy_resource_id_as_none:
  "\<not> truthy resource_id \<Longrightarrow>
     check_permission st user resource_type action resource_id
       = check_permission st user resource_type action IdNone"
  by (cases user) simp_all

lemma resource_lookup_by_string_form:
  "check_resource_permission st u code resource_type (IdInt n)
     = check_resource_permission st u code resource_type (IdStr (str_int n))"
  by (simp only: check_resource_permission_def py_str.simps)

text \<open>
  The same holds behind the administrators' gate: it lets a superuser in, turns an
  inactive account away, and raises for every other account.
\<close>

lemma admin_gate_outcomes:
  "IsAdminUser_has_permission (check_permission st) (User u) =
     (if is_superuser u then (Inr True, [])
      else if \<not> is_active u then (Inr False, [])
      else (Inl (NameError ''permission_code''), []))"
  by (simp add: IsAdminUser_has_permission_def permission_code_def)

section \<open>Malformed principals\<close>

text \<open>
  C7, as stated, fails: a principal without an id is not rejected with a failure of
  its own. The anonymous user (its \<open>id\<close> is \<open>None\<close>) gets the ordinary deny \<open>False\<close>.
\<close>

theorem anonymous_principal_plain_denied:
  "fst (check_permission bare_store AnonymousUser ''document'' ''read'' IdNone) = Inr False"
  by simp

text \<open>
  C7, amended. \<open>check_permission\<close> validates no principal before the superuser check:
  on \<open>None\<close> that check itself fails, with the \<open>AttributeError\<close> of reading
  \<open>is_superuser\<close>, and the anonymous user, which has no id, is denied like any inactive
  principal, with \<open>False\<close>.
\<close>

theorem principal_not_validated:
  "check_permission st PyNone resource_type action resource_id
     = (Inl (AttributeError ''is_superuser''), []) \<and>
   check_permission st AnonymousUser resource_type action resource_id = (Inr False, [])"
  by simp

section \<open>The denial log\<close>

text \<open>
  C8, as stated, fails: a \<open>False\<close> decision is not always logged. The deactivated
  account is denied and no record is written.
\<close>

theorem inactive_denial_not_logged:
  "fst (check_permission precedence_store (User former_user) ''document'' ''read'' IdNone) = Inr False \<and>
   length (snd (check_permission precedence_store (User former_user) ''document'' ''read'' IdNone)) \<noteq> 1"
  by (simp add: example_defs)

text \<open>
  C8, amended. No record is written on a \<open>True\<close> decision, none is written when the
  \<open>False\<close> comes from the inactive-principal check, and no call writes more than one
  record: the only logging statement is the warning of the role fallback.
\<close>

theorem audit_events:
  "(fst (check_permission st user resource_type action resource_id) = Inr True \<longrightarrow>
      snd (check_permission st user resource_type action resource_id) = []) \<and>
   (\<not> is_superuser u \<and> \<not> is_active u \<longrightarrow>
      check_permission st (User u) resource_type action resource_id = (Inr False, [])) \<and>
   length (snd (check_permission st user resource_type action resource_id)) \<le> 1"
  by (cases user) (simp_all add: permission_code_def)

theorem audit_events_witness:
  "fst (check_permission root_denied_store (User root_user) ''document'' ''delete'' IdNone) = Inr True \<and>
   snd (check_permission root_denied_store (User root_user) ''document'' ''delete'' IdNone) = [] \<and>
   \<not> is_superuser former_user \<and> \<not> is_active former_user \<and>
   check_permission root_denied_store (User former_user) ''document'' ''delete'' IdNone = (Inr False, [])"
  using audit_events [of root_denied_store "User root_user" "''document''" "''delete''" IdNone former_user]
    audit_events [of root_denied_store "User former_user" "''document''" "''delete''" IdNone former_user]
  by (simp add: example_defs)

section \<open>Effective permissions\<close>

text \<open>
  C5. \<open>get_user_permissions\<close> returns exactly the effective permissions as the
  specification words them: for an active principal that is no superuser, the union of
  the codes of all roles held, plus the codes granted directly, minus the codes denied
  directly, the subtraction last; the wildcard for a superuser; nothing for an
  inactive principal.
\<close>

theorem get_user_permissions_effective:
  "get_user_permissions st (User u) = Inr (EffectivePermissions st u)"
  apply (simp add: EffectivePermissions_def Let_def)
  apply (auto simp: roles_held_def codes_of_role_def direct_codes_def permission__code_def split: if_splits)
  done

text \<open>
  The viewer with two roles (\<open>document.read\<close> and \<open>project.read\<close> from one,
  \<open>document.create\<close> from the other), a direct grant of \<open>project.update\<close> and a direct
  deny of \<open>document.read\<close>.
\<close>

theorem get_user_permissions_effective_witness:
  "get_user_permissions aggregate_store (User viewer_user)
     = Inr (EffectivePermissions aggregate_store viewer_user) \<and>
   EffectivePermissions aggregate_store viewer_user
     = {''project.read'', ''document.create'', ''project.update''}"
proof -
  have computed: "get_user_permissions aggregate_store (User viewer_user)
      = Inr {''project.read'', ''document.create'', ''project.update''}"
    by (auto simp: permission__code_def example_defs)
  have refined: "get_user_permissions aggregate_store (User viewer_user)
      = Inr (EffectivePermissions aggregate_store viewer_user)"
    by (rule get_user_permissions_effective)
  from computed refined show ?thesis by simp
qed

text \<open>
  The scenario of the specification: the viewer holds the role \<open>viewer\<close> only, which
  carries \<open>document.read\<close> and \<open>project.read\<close>.
\<close>

lemma viewer_effective_permissions:
  "get_user_permissions viewer_store (User viewer_user) = Inr {''document.read'', ''project.read''}"
  by (auto simp: permission__code_def example_defs)

section \<open>The collection gate\<close>

text \<open>The entries of the action map, and what \<open>get\<close> returns outside of it.\<close>

lemma action_map_entries:
  "dict_get action_map ''list'' ''list'' = ''read''"
  "dict_get action_map ''retrieve'' ''retrieve'' = ''read''"
  "dict_get action_map ''create'' ''create'' = ''create''"
  "dict_get action_map ''update'' ''update'' = ''update''"
  "dict_get action_map ''partial_update'' ''partial_update'' = ''update''"
  "dict_get action_map ''destroy'' ''destroy'' = ''delete''"
  "action \<notin> {''list'', ''retrieve'', ''create'', ''update'', ''partial_update'', ''destroy''}
     \<Longrightarrow> dict_get action_map action action = action"
  by (simp_all add: dict_get_def action_map_def)

text \<open>
  C6. For an authenticated principal, \<open>HasResourcePermission.has_permission\<close> returns
  what \<open>check_permission\<close> returns when called with that principal, the view's resource
  type, the mapped action and no resource id, where \<open>list\<close>, \<open>retrieve\<close>, \<open>create\<close>,
  \<open>update\<close>, \<open>partial_update\<close>, \<open>destroy\<close> are mapped to \<open>read\<close>, \<open>read\<close>, \<open>create\<close>,
  \<open>update\<close>, \<open>update\<close>, \<open>delete\<close> and any other action passes through unchanged; a
  view without a resource type or without an action is permitted. The call is stated
  for whatever function stands behind \<open>PermissionService.check_permission\<close>, so it
  fixes each argument the gate passes; the service's own \<open>check_permission st\<close> is one
  such function.
\<close>

theorem collection_gate:
  "(view_resource_type v = Some resource_type \<and> view_action v = Some action \<and>
    resource_type \<noteq> [] \<and> action \<noteq> [] \<longrightarrow>
      HasResourcePermission_has_permission service (User u) v
        = service (User u) resource_type
            (if action = ''list'' then ''read''
             else if action = ''retrieve'' then ''read''
             else if action = ''create'' then ''create''
             else if action = ''update'' then ''update''
             else if action = ''partial_update'' then ''update''
             else if action = ''destroy'' then ''delete''
             else action)
            IdNone) \<and>
   (not_str (view_resource_type v) \<or> not_str (view_action v) \<longrightarrow>
      HasResourcePermission_has_permission service (User u) v = (Inr True, []))"
proof -
  have mapped: "dict_get action_map action action =
      (if action = ''list'' then ''read''
       else if action = ''retrieve'' then ''read''
       else if action = ''create'' then ''create''
       else if action = ''update'' then ''update''
       else if action = ''partial_update'' then ''update''
       else if action = ''destroy'' then ''delete''
       else action)"
    by (simp add: dict_get_def action_map_def)
  have call: "view_resource_type v = Some resource_type \<and> view_action v = Some action \<and>
      resource_type \<noteq> [] \<and> action \<noteq> [] \<longrightarrow>
      HasResourcePermission_has_permission service (User u) v
        = service (User u) resource_type (dict_get action_map action action) IdNone"
    by (simp add: HasResourcePermission_has_permission_def Let_def)
  have permit: "not_str (view_resource_type v) \<or> not_str (view_action v) \<longrightarrow>
      HasResourcePermission_has_permission service (User u) v = (Inr True, [])"
    by (cases "view_resource_type v"; cases "view_action v")
       (auto simp: HasResourcePermission_has_permission_def)
  from call permit show ?thesis
    unfolding mapped by blast
qed

text \<open>
  With the recording stand-in, the document list is asked as \<open>document\<close>, \<open>read\<close>, for
  the viewer and without a resource id, and an action outside the map is passed as it
  is. With the service's own function the gate gives what \<open>check_permission\<close> gives,
  which for the viewer is the \<open>NameError\<close>. A view without a resource type is
  permitted.
\<close>

theorem collection_gate_witness:
  "HasResourcePermission_has_permission recording_service (User viewer_user) documents_list
     = (Inr True, [Warning ''document'' ''read'']) \<and>
   HasResourcePermission_has_permission recording_service (User viewer_user) documents_export
     = (Inr True, [Warning ''document'' ''export'']) \<and>
   HasResourcePermission_has_permission (check_permission viewer_store) (User viewer_user)
       documents_list
     = check_permission viewer_store (User viewer_user) ''document'' ''read'' IdNone \<and>
   HasResourcePermission_has_permission (check_permission viewer_store) (User viewer_user)
       documents_list
     = (Inl (NameError ''permission_code''), []) \<and>
   HasResourcePermission_has_permission (check_permission viewer_store) (User viewer_user)
       untyped_view
     = (Inr True, [])"
  using collection_gate [of documents_list "''document''" "''list''" recording_service viewer_user]
    collection_gate [of documents_export "''document''" "''export''" recording_service viewer_user]
    collection_gate [of documents_list "''document''" "''list''" "check_permission viewer_store"
      viewer_user]
    collection_gate [of untyped_view "''document''" "''list''" "check_permission viewer_store"
      viewer_user]
  by (simp add: example_defs recording_service_def permission_code_def)

section \<open>Granting twice\<close>

text \<open>
  Under a unique key, the rows with a given key are none or one, so \<open>get\<close> by a key
  that occurs returns its row.
\<close>

lemma filter_key_at_most_one:
  "distinct (map f xs) \<Longrightarrow> [x \<leftarrow> xs. f x = k] = [] \<or> (\<exists>y. [x \<leftarrow> xs. f x = k] = [y])"
proof (induction xs)
  case Nil
  then show ?case by simp
next
  case (Cons a xs)
  show ?case
  proof (cases "f a = k")
    case True
    with Cons.prems have "k \<notin> f ` set xs" by auto
    then have "[x \<leftarrow> xs. f x = k] = []" by (auto simp: filter_empty_conv)
    with True show ?thesis by simp
  next
    case False
    with Cons show ?thesis by simp
  qed
qed

lemma objects_get_by_key:
  assumes "distinct (map f xs)" and "k \<in> f ` set xs"
  shows "\<exists>y. objects_get [x \<leftarrow> xs. f x = k] = Inr y \<and> f y = k"
proof -
  from assms(2) have nonempty: "[x \<leftarrow> xs. f x = k] \<noteq> []"
    by (auto simp: filter_empty_conv)
  with filter_key_at_most_one [OF assms(1), of k]
  obtain y where one: "[x \<leftarrow> xs. f x = k] = [y]" by blast
  then have "y \<in> set [x \<leftarrow> xs. f x = k]" by simp
  then have "f y = k" by simp
  with one show ?thesis by (simp add: objects_get_def)
qed

lemma filter_replace_matching:
  "P s \<Longrightarrow> filter P (map (\<lambda>r. if P r then s else r) xs) = map (\<lambda>r. s) (filter P xs)"
  by (induction xs) auto

text \<open>
  \<open>update_or_create\<close> never fails on a table that is unique on \<open>(user, permission)\<close>:
  afterwards the pair has exactly the row of the call, the table is still unique, and
  the row was created exactly when the pair had none.
\<close>

lemma update_or_create_effect:
  assumes uniq: "distinct (map (\<lambda>r. (up_user r, up_permission r)) (user_permissions st))"
  shows "\<exists>created st'.
           update_or_create st uid pid g gb
             = Inr ((\<lparr>up_user = uid, up_permission = pid, up_is_granted = g, up_granted_by = gb\<rparr>, created), st') \<and>
           [r \<leftarrow> user_permissions st'. up_user r = uid \<and> up_permission r = pid]
             = [\<lparr>up_user = uid, up_permission = pid, up_is_granted = g, up_granted_by = gb\<rparr>] \<and>
           distinct (map (\<lambda>r. (up_user r, up_permission r)) (user_permissions st')) \<and>
           users st' = users st \<and> permissions st' = permissions st \<and>
           (created \<longleftrightarrow> [r \<leftarrow> user_permissions st. up_user r = uid \<and> up_permission r = pid] = [])"
proof -
  let ?key = "\<lambda>r. (up_user r, up_permission r)"
  let ?P = "\<lambda>r. up_user r = uid \<and> up_permission r = pid"
  let ?row = "\<lparr>up_user = uid, up_permission = pid, up_is_granted = g, up_granted_by = gb\<rparr>"
  let ?ups = "user_permissions st"
  from filter_key_at_most_one [OF uniq, of "(uid, pid)"]
  consider (none) "filter ?P ?ups = []" | (one) found where "filter ?P ?ups = [found]"
    by auto
  then show ?thesis
  proof cases
    case none
    then have fresh: "(uid, pid) \<notin> ?key ` set ?ups"
      by (auto simp: filter_empty_conv)
    have get: "objects_get (filter ?P ?ups) = Inl DoesNotExist"
      using none by (simp add: objects_get_def)
    have "filter ?P (?ups @ [?row]) = [?row]"
      using none by simp
    moreover have "distinct (map ?key (?ups @ [?row]))"
      using uniq fresh by simp
    moreover have "update_or_create st uid pid g gb
        = Inr ((?row, True), st\<lparr>user_permissions := ?ups @ [?row]\<rparr>)"
      using get by (simp add: update_or_create_def Let_def)
    ultimately show ?thesis
      using none by (intro exI [of _ True] exI [of _ "st\<lparr>user_permissions := ?ups @ [?row]\<rparr>"]) simp
  next
    case one
    then have "found \<in> set (filter ?P ?ups)" by simp
    then have key: "up_user found = uid" "up_permission found = pid" by auto
    then have saved: "found\<lparr>up_is_granted := g, up_granted_by := gb\<rparr> = ?row"
      by (cases found) simp
    have get: "objects_get (filter ?P ?ups) = Inr found"
      using one by (simp add: objects_get_def)
    have same: "map ?key (map (\<lambda>r. if ?P r then ?row else r) ?ups) = map ?key ?ups"
      by (induction ?ups) auto
    have keep: "distinct (map ?key (map (\<lambda>r. if ?P r then ?row else r) ?ups))"
      by (subst same) (rule uniq)
    have "?P ?row" by simp
    from filter_replace_matching [of ?P ?row ?ups, OF this] one
    have "filter ?P (map (\<lambda>r. if ?P r then ?row else r) ?ups) = [?row]"
      by simp
    moreover have "update_or_create st uid pid g gb
        = Inr ((?row, False), st\<lparr>user_permissions := map (\<lambda>r. if ?P r then ?row else r) ?ups\<rparr>)"
      using get saved by (simp add: update_or_create_def Let_def)
    ultimately show ?thesis
      using keep one
      by (intro exI [of _ False]
            exI [of _ "st\<lparr>user_permissions := map (\<lambda>r. if ?P r then ?row else r) ?ups\<rparr>"]) simp
  qed
qed

text \<open>
  One run of the view body for an existing user and permission: status 201 or 200, and
  the pair has exactly one row, with the values of the call.
\<close>

lemma grant_permission_to_user_body_effect:
  assumes keys: "unique_keys st"
    and target: "uid \<in> user_id ` set (users st)"
    and perm: "pid \<in> perm_id ` set (permissions st)"
    and body: "data_permission_id d = Some pid"
  shows "\<exists>created st'.
           grant_permission_to_user_body st requester d uid
             = (Inr (Response (if created then 201 else 200)), st') \<and>
           [r \<leftarrow> user_permissions st'. up_user r = uid \<and> up_permission r = pid]
             = [\<lparr>up_user = uid, up_permission = pid,
                 up_is_granted = (case data_is_granted d of None \<Rightarrow> True | Some b \<Rightarrow> b),
                 up_granted_by = Some (user_id requester)\<rparr>] \<and>
           unique_keys st' \<and> users st' = users st \<and> permissions st' = permissions st \<and>
           (created \<longleftrightarrow> [r \<leftarrow> user_permissions st. up_user r = uid \<and> up_permission r = pid] = [])"
proof -
  let ?g = "case data_is_granted d of None \<Rightarrow> True | Some b \<Rightarrow> b"
  from keys have uniq: "distinct (map user_id (users st))" "distinct (map perm_id (permissions st))"
    "distinct (map (\<lambda>r. (up_user r, up_permission r)) (user_permissions st))"
    by (simp_all add: unique_keys_def)
  from objects_get_by_key [OF uniq(1) target]
  obtain user where user: "objects_get [u \<leftarrow> users st. user_id u = uid] = Inr user" "user_id user = uid"
    by blast
  from objects_get_by_key [OF uniq(2) perm]
  obtain permission where permission:
    "objects_get [p \<leftarrow> permissions st. perm_id p = pid] = Inr permission" "perm_id permission = pid"
    by blast
  from update_or_create_effect [OF uniq(3), of uid pid ?g "Some (user_id requester)"]
  obtain created st' where upsert:
    "update_or_create st uid pid ?g (Some (user_id requester))
       = Inr ((\<lparr>up_user = uid, up_permission = pid, up_is_granted = ?g,
                up_granted_by = Some (user_id requester)\<rparr>, created), st')"
    "[r \<leftarrow> user_permissions st'. up_user r = uid \<and> up_permission r = pid]
       = [\<lparr>up_user = uid, up_permission = pid, up_is_granted = ?g,
           up_granted_by = Some (user_id requester)\<rparr>]"
    "distinct (map (\<lambda>r. (up_user r, up_permission r)) (user_permissions st'))"
    "users st' = users st" "permissions st' = permissions st"
    "created \<longleftrightarrow> [r \<leftarrow> user_permissions st. up_user r = uid \<and> up_permission r = pid] = []"
    by blast
  have "grant_permission_to_user_body st requester d uid
      = (Inr (Response (if created then 201 else 200)), st')"
    using user permission upsert(1) body by (simp add: grant_permission_to_user_body_def)
  moreover have "unique_keys st'"
    using uniq upsert(3,4,5) by (simp add: unique_keys_def)
  ultimately show ?thesis
    using upsert(2,4,5,6) by (intro exI [of _ created] exI [of _ st']) simp
qed

text \<open>
  The permission classes of the view let a superuser through to the body and nobody
  else: an inactive account is refused, every other account makes \<open>IsAdminUser\<close> raise
  the \<open>NameError\<close> of \<open>check_permission\<close>, \<open>None\<close> and the anonymous user are refused
  by \<open>IsAuthenticated\<close>; in all these cases nothing is written.
\<close>

lemma grant_permission_to_user_admitted:
  "is_superuser requester \<Longrightarrow>
     grant_permission_to_user st (User requester) d uid
       = grant_permission_to_user_body st requester d uid"
  by (simp add: grant_permission_to_user_def IsAuthenticated_has_permission_def
      IsAdminUser_has_permission_def)

lemma grant_permission_to_user_not_admitted:
  "\<not> is_superuser requester \<Longrightarrow>
     grant_permission_to_user st (User requester) d uid
       = (if is_active requester then Inl (NameError ''permission_code'') else Inr Denied, st)"
  "grant_permission_to_user st AnonymousUser d uid = (Inr Denied, st)"
  "grant_permission_to_user st PyNone d uid = (Inr Denied, st)"
  by (simp_all add: grant_permission_to_user_def IsAuthenticated_has_permission_def
      IsAdminUser_has_permission_def permission_code_def)

text \<open>
  C9. For every user and permission, issuing the grant or deny twice for the same pair
  (by requesters the view admits, which are the superusers) leaves exactly one
  \<open>UserPermission\<close> row for the pair, with the \<open>is_granted\<close> and \<open>granted_by\<close> of the
  second call; the second call answers 200 (an update), it neither creates a second row
  nor fails.
\<close>

theorem grant_twice_one_row:
  assumes "unique_keys st"
    and "uid \<in> user_id ` set (users st)"
    and "pid \<in> perm_id ` set (permissions st)"
    and "data_permission_id d1 = Some pid"
    and "data_permission_id d2 = Some pid"
    and "is_superuser admin1"
    and "is_superuser admin2"
    and "grant_permission_to_user st (User admin1) d1 uid = (r1, st1)"
    and "grant_permission_to_user st1 (User admin2) d2 uid = (r2, st2)"
  shows "(r1 = Inr (Response 201) \<or> r1 = Inr (Response 200)) \<and>
         r2 = Inr (Response 200) \<and>
         [r \<leftarrow> user_permissions st2. up_user r = uid \<and> up_permission r = pid]
           = [\<lparr>up_user = uid, up_permission = pid,
               up_is_granted = (case data_is_granted d2 of None \<Rightarrow> True | Some b \<Rightarrow> b),
               up_granted_by = Some (user_id admin2)\<rparr>]"
proof -
  from assms(6,8) have run1: "grant_permission_to_user_body st admin1 d1 uid = (r1, st1)"
    by (simp add: grant_permission_to_user_admitted)
  from assms(7,9) have run2: "grant_permission_to_user_body st1 admin2 d2 uid = (r2, st2)"
    by (simp add: grant_permission_to_user_admitted)
  from grant_permission_to_user_body_effect [OF assms(1-4), of admin1] run1
  obtain created1 where first:
    "r1 = Inr (Response (if created1 then 201 else 200))"
    "[r \<leftarrow> user_permissions st1. up_user r = uid \<and> up_permission r = pid] \<noteq> []"
    "unique_keys st1" "users st1 = users st" "permissions st1 = permissions st"
    by auto
  from first(4,5) assms(2,3)
  have still: "uid \<in> user_id ` set (users st1)" "pid \<in> perm_id ` set (permissions st1)"
    by simp_all
  from grant_permission_to_user_body_effect [OF first(3) still assms(5), of admin2] run2 first(2)
  have second: "r2 = Inr (Response 200)"
    "[r \<leftarrow> user_permissions st2. up_user r = uid \<and> up_permission r = pid]
       = [\<lparr>up_user = uid, up_permission = pid,
           up_is_granted = (case data_is_granted d2 of None \<Rightarrow> True | Some b \<Rightarrow> b),
           up_granted_by = Some (user_id admin2)\<rparr>]"
    by auto
  from first(1) second show ?thesis by (cases created1) simp_all
qed

text \<open>
  The superuser grants \<open>document.read\<close> to the viewer (201, created), then the second
  administrator, a superuser too, denies it (200): one row, denied, by the second
  administrator.
\<close>

theorem grant_twice_one_row_witness:
  "unique_keys bare_store \<and>
   4 \<in> user_id ` set (users bare_store) \<and>
   1 \<in> perm_id ` set (permissions bare_store) \<and>
   is_superuser root_user \<and> is_superuser auditor_user \<and>
   fst (grant_permission_to_user bare_store (User root_user) grant_document_read 4)
     = Inr (Response 201) \<and>
   fst (grant_permission_to_user
          (snd (grant_permission_to_user bare_store (User root_user) grant_document_read 4))
          (User auditor_user) deny_document_read 4)
     = Inr (Response 200) \<and>
   [r \<leftarrow> user_permissions
           (snd (grant_permission_to_user
                   (snd (grant_permission_to_user bare_store (User root_user)
                           grant_document_read 4))
                   (User auditor_user) deny_document_read 4)).
      up_user r = 4 \<and> up_permission r = 1]
     = [\<lparr>up_user = 4, up_permission = 1, up_is_granted = False, up_granted_by = Some 2\<rparr>]"
proof -
  have keys: "unique_keys bare_store"
    by (simp add: unique_keys_def example_defs)
  have target: "4 \<in> user_id ` set (users bare_store)"
    by (simp add: example_defs)
  have perm: "1 \<in> perm_id ` set (permissions bare_store)"
    by (simp add: example_defs)
  have body: "data_permission_id grant_document_read = Some 1"
    "data_permission_id deny_document_read = Some 1"
    by (simp_all add: example_defs)
  have admins: "is_superuser root_user" "is_superuser auditor_user"
    by (simp_all add: example_defs)
  have created: "fst (grant_permission_to_user bare_store (User root_user) grant_document_read 4)
      = Inr (Response 201)"
    by (simp add: grant_permission_to_user_def IsAuthenticated_has_permission_def
        IsAdminUser_has_permission_def grant_permission_to_user_body_def update_or_create_def
        objects_get_def Let_def example_defs)
  from grant_twice_one_row [OF keys target perm body admins prod.collapse [symmetric]
      prod.collapse [symmetric]]
  have "fst (grant_permission_to_user
          (snd (grant_permission_to_user bare_store (User root_user) grant_document_read 4))
          (User auditor_user) deny_document_read 4) = Inr (Response 200) \<and>
    [r \<leftarrow> user_permissions
           (snd (grant_permission_to_user
                   (snd (grant_permission_to_user bare_store (User root_user)
                           grant_document_read 4))
                   (User auditor_user) deny_document_read 4)).
      up_user r = 4 \<and> up_permission r = 1]
     = [\<lparr>up_user = 4, up_permission = 1, up_is_granted = False, up_granted_by = Some 2\<rparr>]"
    by (simp add: deny_document_read_def auditor_user_def)
  with keys target perm admins created show ?thesis by simp
qed

end
